theory Spec2Isabelle
  imports Complex_Main "HOL-Library.Char_ord" "HOL-Library.List_Lexorder"
begin

text \<open>
  A shallow embedding of the data analyzer: its two front-ends, \<open>Analyzer_app.py\<close>
  (browser) and \<open>data_analyzer_tk.py\<close> (desktop), and the pandas, NumPy and Matplotlib
  calls they make. The front-ends are translated from their source; the library calls are
  modelled from the libraries' documented behaviour, each under its own heading.
\<close>

section \<open>Tables\<close>

text \<open>
  A pandas DataFrame as the two front-ends use it: an ordered sequence of named columns.
  A column carries its dtype and its cells:
  \<^item> \<open>Int64\<close>: a column of 64-bit signed integers (it has no missing cell);
  \<^item> \<open>Float64\<close>: a column of floats, \<open>None\<close> being NaN (a missing cell). Finite floats are
    modelled by exact rationals: rounding and the infinities are outside the model;
  \<^item> \<open>Bool\<close>: a column of booleans;
  \<^item> \<open>Object\<close>: a column of Python strings, \<open>None\<close> being a missing cell.
  The row index is not modelled: no operation of the program reads it. Column names are
  looked up with \<open>map_of\<close>: \<open>pd.read_csv\<close> makes the names of a loaded table distinct.
\<close>

datatype column =
    Int64 "int list"
  | Float64 "rat option list"
  | Bool "bool list"
  | Object "string option list"

type_synonym DataFrame = "(string \<times> column) list"

fun head_column :: "column \<Rightarrow> column" where
  "head_column (Int64 xs) = Int64 (take 5 xs)"
| "head_column (Float64 xs) = Float64 (take 5 xs)"
| "head_column (Bool bs) = Bool (take 5 bs)"
| "head_column (Object xs) = Object (take 5 xs)"

definition head :: "DataFrame \<Rightarrow> DataFrame" where
  "head frame = map (\<lambda>(c, col). (c, head_column col)) frame"

definition columns :: "DataFrame \<Rightarrow> string list" where
  "columns frame = map fst frame"

datatype py_error = TypeError | KeyError | ValueError

section \<open>Library calls\<close>

subsection \<open>Column kinds\<close>

text \<open>
  \<open>pd.api.types.is_numeric_dtype\<close>: true of integer, float and boolean dtypes.
  \<open>is_number\<close> is the selection \<open>np.number\<close> of \<open>DataFrame.describe\<close>: integer and float
  dtypes, not booleans.
\<close>

fun is_numeric_dtype :: "column \<Rightarrow> bool" where
  "is_numeric_dtype (Int64 _) = True"
| "is_numeric_dtype (Float64 _) = True"
| "is_numeric_dtype (Bool _) = True"
| "is_numeric_dtype (Object _) = False"

fun is_number :: "column \<Rightarrow> bool" where
  "is_number (Int64 _) = True"
| "is_number (Float64 _) = True"
| "is_number (Bool _) = False"
| "is_number (Object _) = False"

fun dropna :: "'a option list \<Rightarrow> 'a list" where
  "dropna [] = []"
| "dropna (None # xs) = dropna xs"
| "dropna (Some x # xs) = x # dropna xs"

fun list_max :: "'a::linorder list \<Rightarrow> 'a option" where
  "list_max [] = None"
| "list_max (x # xs) = Some (fold max xs x)"

fun list_min :: "'a::linorder list \<Rightarrow> 'a option" where
  "list_min [] = None"
| "list_min (x # xs) = Some (fold min xs x)"

subsection \<open>Scalars, their subtraction and their display\<close>

text \<open>
  The value of \<open>np.max(df[col])\<close> is a NumPy scalar of the column's dtype (a Python
  string for an \<open>Object\<close> column), and NaN when the column has no cell at all.
  \<open>np.int64\<close> arithmetic wraps around modulo \<open>2 ^ 64\<close>.
\<close>

datatype number = I64 int | F64 "rat option"

datatype scalar = Num number | PyBool bool | PyStr string

definition wrap64 :: "int \<Rightarrow> int" where
  "wrap64 x = (x + 2 ^ 63) mod 2 ^ 64 - 2 ^ 63"

text \<open>
  \<open>Series.max\<close> and \<open>Series.min\<close> skip missing cells. On an \<open>Object\<close> column that mixes
  strings and missing cells the comparison of a string with a float raises.
\<close>

fun np_max :: "column \<Rightarrow> py_error + scalar" where
  "np_max (Int64 xs) =
     Inr (case list_max xs of None \<Rightarrow> Num (F64 None) | Some m \<Rightarrow> Num (I64 m))"
| "np_max (Float64 xs) = Inr (Num (F64 (list_max (dropna xs))))"
| "np_max (Bool bs) =
     Inr (case list_max bs of None \<Rightarrow> Num (F64 None) | Some m \<Rightarrow> PyBool m)"
| "np_max (Object xs) =
     (case list_max (dropna xs) of
        None \<Rightarrow> Inr (Num (F64 None))
      | Some m \<Rightarrow> if None \<in> set xs then Inl TypeError else Inr (PyStr m))"

fun np_min :: "column \<Rightarrow> py_error + scalar" where
  "np_min (Int64 xs) =
     Inr (case list_min xs of None \<Rightarrow> Num (F64 None) | Some m \<Rightarrow> Num (I64 m))"
| "np_min (Float64 xs) = Inr (Num (F64 (list_min (dropna xs))))"
| "np_min (Bool bs) =
     Inr (case list_min bs of None \<Rightarrow> Num (F64 None) | Some m \<Rightarrow> PyBool m)"
| "np_min (Object xs) =
     (case list_min (dropna xs) of
        None \<Rightarrow> Inr (Num (F64 None))
      | Some m \<Rightarrow> if None \<in> set xs then Inl TypeError else Inr (PyStr m))"

text \<open>
  The operator \<open>-\<close> on the two scalars. The maximum and the minimum of one column have
  the same type, so only those pairs are spelled out; NumPy refuses to subtract
  booleans, and Python to subtract strings.
\<close>

fun py_sub :: "scalar \<Rightarrow> scalar \<Rightarrow> py_error + number" where
  "py_sub (Num (I64 a)) (Num (I64 b)) = Inr (I64 (wrap64 (a - b)))"
| "py_sub (Num (F64 (Some a))) (Num (F64 (Some b))) = Inr (F64 (Some (a - b)))"
| "py_sub (Num (F64 _)) (Num (F64 _)) = Inr (F64 None)"
| "py_sub (Num (I64 a)) (Num (F64 b)) = Inr (F64 (map_option (\<lambda>y. of_int a - y) b))"
| "py_sub (Num (F64 a)) (Num (I64 b)) = Inr (F64 (map_option (\<lambda>x. x - of_int b) a))"
| "py_sub _ _ = Inl TypeError"

text \<open>Decimal digits of a natural number, as \<open>str\<close> prints them.\<close>

definition digit :: "nat \<Rightarrow> char" where
  "digit d = ''0123456789'' ! d"

fun str_nat :: "nat \<Rightarrow> string" where
  "str_nat n = (if n < 10 then [digit n] else str_nat (n div 10) @ [digit (n mod 10)])"

declare str_nat.simps [simp del]

definition round_half_even :: "rat \<Rightarrow> int" where
  "round_half_even q =
     (let f = \<lfloor>q\<rfloor>; d = q - of_int f
      in if d < 1 / 2 then f
         else if 1 / 2 < d then f + 1
         else if even f then f else f + 1)"

text \<open>
  The conversion of an integer to float64: the nearest integer with 53 significant bits,
  ties to even. (A 64-bit integer is within the range of the floats.)
\<close>

fun excess_bits :: "nat \<Rightarrow> nat" where
  "excess_bits a = (if a < 2 ^ 53 then 0 else Suc (excess_bits (a div 2)))"

declare excess_bits.simps [simp del]

definition float64_of_nat :: "nat \<Rightarrow> nat" where
  "float64_of_nat a =
     (let e = excess_bits a; q = a div 2 ^ e; r = a mod 2 ^ e
      in (if 2 ^ e < 2 * r \<or> (2 * r = 2 ^ e \<and> odd q) then q + 1 else q) * 2 ^ e)"

text \<open>
  The format \<open>.2f\<close>: an integer scalar is converted to float64 first; the magnitude is
  rounded to the nearest hundredth (ties to even) and printed with two decimals, after
  the sign of a negative number.
\<close>

definition fixed2 :: "bool \<Rightarrow> nat \<Rightarrow> string" where
  "fixed2 negative hundredths =
     (if negative then ''-'' else '''') @ str_nat (hundredths div 100) @ ''.''
       @ [digit (hundredths mod 100 div 10), digit (hundredths mod 10)]"

fun format_2f :: "number \<Rightarrow> string" where
  "format_2f (I64 n) = fixed2 (n < 0) (float64_of_nat (nat \<bar>n\<bar>) * 100)"
| "format_2f (F64 None) = ''nan''"
| "format_2f (F64 (Some r)) = fixed2 (r < 0) (nat (round_half_even (\<bar>r\<bar> * 100)))"

subsection \<open>Descriptive statistics\<close>

text \<open>
  \<open>DataFrame.describe()\<close> with its default arguments: it describes the columns whose
  dtype is a number; when the frame has none, it describes every column instead (count,
  unique, top and frequency); a frame with no column at all is refused. The order of the
  frame's columns is kept. Of a numeric description the model keeps count, mean, minimum
  and maximum (the standard deviation and the quartiles are not rational in general); of
  a categorical one, count and the number of distinct values.
\<close>

datatype summary =
    Numeric_summary nat "rat option" "rat option" "rat option"
  | Categorical_summary nat nat

fun mean :: "rat list \<Rightarrow> rat option" where
  "mean [] = None"
| "mean xs = Some (sum_list xs / of_nat (length xs))"

definition describe_numeric :: "rat list \<Rightarrow> summary" where
  "describe_numeric xs = Numeric_summary (length xs) (mean xs) (list_min xs) (list_max xs)"

definition describe_categorical :: "'a list \<Rightarrow> summary" where
  "describe_categorical xs = Categorical_summary (length xs) (length (remdups xs))"

fun describe_1d :: "column \<Rightarrow> summary" where
  "describe_1d (Int64 xs) = describe_numeric (map of_int xs)"
| "describe_1d (Float64 xs) = describe_numeric (dropna xs)"
| "describe_1d (Bool bs) = describe_categorical bs"
| "describe_1d (Object xs) = describe_categorical (dropna xs)"

type_synonym stats = "(string \<times> summary) list"

definition describe :: "DataFrame \<Rightarrow> py_error + stats" where
  "describe frame =
     (if frame = [] then Inl ValueError
      else let data = filter (\<lambda>(c, col). is_number col) frame
           in Inr (map (\<lambda>(c, col). (c, describe_1d col)) (if data = [] then frame else data)))"

subsection \<open>Histograms\<close>

text \<open>
  \<open>Series.hist(ax, bins)\<close> drops the missing cells and hands the values to
  \<open>np.histogram\<close>. That function works in float64: its edges and counts are rounded
  results, and it raises when the edges it computes do not increase. It is a parameter
  here: from the values and the number of bins it yields the counts and the edges, or
  the exception raised. On a boolean column the call raises before any bin is made. A
  text column is never plotted (both front-ends test the dtype first); the model gives
  it no value.
\<close>

record figure =
  title :: string
  xlabel :: string
  ylabel :: string
  bin_edges :: "rat list"
  counts :: "nat list"

type_synonym histogram = "rat list \<Rightarrow> nat \<Rightarrow> py_error + nat list \<times> rat list"

fun hist_values :: "column \<Rightarrow> py_error + rat list" where
  "hist_values (Int64 xs) = Inr (map of_int xs)"
| "hist_values (Float64 xs) = Inr (dropna xs)"
| "hist_values (Bool bs) = Inl TypeError"
| "hist_values (Object xs) = Inr []"

definition hist :: "histogram \<Rightarrow> column \<Rightarrow> nat \<Rightarrow> py_error + figure" where
  "hist np_histogram col bins =
     (case hist_values col of
        Inl e \<Rightarrow> Inl e
      | Inr xs \<Rightarrow>
          (case np_histogram xs bins of
             Inl e \<Rightarrow> Inl e
           | Inr (n, edges) \<Rightarrow>
               Inr \<lparr>title = [], xlabel = [], ylabel = [], bin_edges = edges, counts = n\<rparr>))"

subsection \<open>Reading a CSV file\<close>

text \<open>
  \<open>pd.read_csv\<close> with its default arguments, from the records the tokenizer found (the
  header first). The tokenizer, the naming of the columns (the header's fields, made
  distinct) and the inference of a column's dtype from its cells are parameters. What is
  modelled is the width rule of the parser: the header and the first record fix the
  expected number of fields; a later record with more fields raises (the message counts
  the header as line 1); a record with fewer is filled up with empty fields; and when the
  first record is wider than the header, the leading fields form the row index and are
  no column.
\<close>

definition pad :: "nat \<Rightarrow> string list \<Rightarrow> string list" where
  "pad width r = r @ replicate (width - length r) []"

definition too_many_fields :: "nat \<Rightarrow> nat \<Rightarrow> nat \<Rightarrow> string" where
  "too_many_fields width line saw =
     ''Error tokenizing data. C error: Expected '' @ str_nat width @ '' fields in line ''
       @ str_nat line @ '', saw '' @ str_nat saw @ [CHR 0x0A]"

definition read_records ::
  "(string list \<Rightarrow> string list) \<Rightarrow> (string list \<Rightarrow> column) \<Rightarrow> string list list
     \<Rightarrow> string + DataFrame" where
  "read_records mangle infer rows =
     (case rows of
        [] \<Rightarrow> Inl ''No columns to parse from file''
      | header # data \<Rightarrow>
          (let width = (case data of
                          [] \<Rightarrow> length header
                        | first # _ \<Rightarrow> max (length header) (length first))
           in case filter (\<lambda>(line, r). width < length r) (enumerate 2 data) of
                (line, r) # _ \<Rightarrow> Inl (too_many_fields width line (length r))
              | [] \<Rightarrow>
                  (let body = map (\<lambda>r. drop (width - length header) (pad width r)) data
                   in Inr (zip (mangle header)
                             (map (\<lambda>i. infer (map (\<lambda>r. r ! i) body)) [0..<length header])))))"

definition pd_read_csv ::
  "(string \<Rightarrow> string + string list list) \<Rightarrow> (string list \<Rightarrow> string list)
     \<Rightarrow> (string list \<Rightarrow> column) \<Rightarrow> string \<Rightarrow> string + DataFrame" where
  "pd_read_csv tokenize mangle infer content =
     (case tokenize content of
        Inl e \<Rightarrow> Inl e
      | Inr rows \<Rightarrow> read_records mangle infer rows)"

text \<open>
  Instances of the parameters, for the examples: the records of a text without quotes
  or carriage returns (blank lines are skipped), and the dtype of a column whose cells
  are empty, decimal integers that fit 64 bits (digits after an optional minus sign),
  or text that is no number.
\<close>

fun split_on :: "char \<Rightarrow> string \<Rightarrow> string list" where
  "split_on d [] = [[]]"
| "split_on d (c # cs) =
     (case split_on d cs of
        [] \<Rightarrow> [[c]]
      | f # fs \<Rightarrow> if c = d then [] # f # fs else (c # f) # fs)"

definition plain_records :: "string \<Rightarrow> string + string list list" where
  "plain_records content =
     Inr (map (split_on CHR '','') (filter (\<lambda>l. l \<noteq> []) (split_on (CHR 0x0A) content)))"

fun nat_literal :: "string \<Rightarrow> nat \<Rightarrow> nat option" where
  "nat_literal [] acc = Some acc"
| "nat_literal (c # cs) acc =
     (if c \<in> set ''0123456789'' then nat_literal cs (10 * acc + (of_char c - 48)) else None)"

fun int_literal :: "string \<Rightarrow> int option" where
  "int_literal [] = None"
| "int_literal (c # cs) =
     (if c = CHR ''-'' then (if cs = [] then None else map_option (\<lambda>n. - int n) (nat_literal cs 0))
      else map_option int (nat_literal (c # cs) 0))"

definition infer_cells :: "string list \<Rightarrow> column" where
  "infer_cells cells =
     (let vals = map (\<lambda>c. if c = [] then None else Some c) cells
      in if cells = [] then Object []
         else if dropna vals = [] then Float64 (map (\<lambda>_. None) cells)
         else case those (map int_literal (dropna vals)) of
                Some ns \<Rightarrow>
                  if None \<in> set vals
                  then Float64 (map (\<lambda>v. case v of None \<Rightarrow> None
                                           | Some c \<Rightarrow> map_option of_int (int_literal c)) vals)
                  else Int64 ns
              | None \<Rightarrow> Object vals)"

definition read_plain_csv :: "string \<Rightarrow> string + DataFrame" where
  "read_plain_csv = pd_read_csv plain_records id infer_cells"

section \<open>The browser front-end (Analyzer_app.py)\<close>

text \<open>
  \<open>st.session_state\<close>: the keys the script uses. A key that was never set reads as
  \<open>None\<close> (\<open>False\<close> for the two flags, which are read with that default).
\<close>

record session_state =
  df :: "DataFrame option"
  last_uploaded_name :: "string option"
  show_stats :: bool
  show_plot :: bool
  plot_col :: "string option"

record uploaded_file =
  name :: string
  getvalue :: string

text \<open>What one run of the script displays, in order (the emoji of the captions are left out).\<close>

datatype element =
    Title string
  | Markdown string
  | Header string
  | Subheader string
  | Success string
  | Error string
  | Warning string
  | Info string
  | Dataframe DataFrame
  | Dataframe_stats stats
  | Table_ranges "(string \<times> string) list"
  | Pyplot figure

text \<open>
  \<open>load_data\<close>. The parameter \<open>read_csv\<close> stands for the decoding of the uploaded bytes
  followed by \<open>pd.read_csv\<close>: it yields the table, or the description of the exception
  raised.
\<close>

definition load_data ::
  "(string \<Rightarrow> string + DataFrame) \<Rightarrow> uploaded_file option \<Rightarrow> session_state
     \<Rightarrow> session_state \<times> element list" where
  "load_data read_csv file ss =
     (case file of
        None \<Rightarrow> (ss, [])
      | Some f \<Rightarrow>
          (case read_csv (getvalue f) of
             Inr table \<Rightarrow>
               (ss\<lparr>df := Some table\<rparr>,
                [Success (''File loaded successfully: **'' @ name f @ ''**'')])
           | Inl e \<Rightarrow>
               (ss\<lparr>df := None\<rparr>,
                [Error (''Error loading file. Please check the format. Details: '' @ e)])))"

text \<open>The loop of \<open>show_statistics\<close> over the described columns.\<close>

fun range_data :: "DataFrame \<Rightarrow> string list \<Rightarrow> py_error + (string \<times> string) list" where
  "range_data frame [] = Inr []"
| "range_data frame (col # cols) =
     (case map_of frame col of
        None \<Rightarrow> Inl KeyError
      | Some c \<Rightarrow>
          (case np_max c of
             Inl e \<Rightarrow> Inl e
           | Inr mx \<Rightarrow>
               (case np_min c of
                  Inl e \<Rightarrow> Inl e
                | Inr mn \<Rightarrow>
                    (case py_sub mx mn of
                       Inl e \<Rightarrow> Inl e
                     | Inr data_range \<Rightarrow>
                         (case range_data frame cols of
                            Inl e \<Rightarrow> Inl e
                          | Inr rows \<Rightarrow> Inr ((col, format_2f data_range) # rows))))))"

text \<open>
  \<open>show_statistics\<close>: what it displays, and the exception that ends it, if any.
  \<open>pd.DataFrame(range_data).set_index("Column")\<close> raises on an empty list of rows.
\<close>

definition show_statistics :: "DataFrame \<Rightarrow> element list \<times> py_error option" where
  "show_statistics frame =
     (case describe frame of
        Inl e \<Rightarrow> ([Subheader ''Descriptive Statistics (Pandas)''], Some e)
      | Inr stats_df \<Rightarrow>
          (let shown = [Subheader ''Descriptive Statistics (Pandas)'', Dataframe_stats stats_df,
                        Subheader ''Additional NumPy Analysis (Range)''];
               numerical_cols = map fst stats_df
           in case range_data frame numerical_cols of
                Inl e \<Rightarrow> (shown, Some e)
              | Inr rows \<Rightarrow>
                  if rows = [] then (shown, Some KeyError)
                  else (shown @ [Table_ranges rows], None)))"

text \<open>
  \<open>visualize_data\<close>: what it displays, and the exception that ends it, if any (the
  caption is displayed before the histogram is computed).
\<close>

definition visualize_data ::
  "histogram \<Rightarrow> DataFrame \<Rightarrow> string \<Rightarrow> element list \<times> py_error option" where
  "visualize_data np_histogram frame column_name =
     (case map_of frame column_name of
        Some c \<Rightarrow>
          if column_name \<noteq> [] \<and> is_numeric_dtype c
          then (case hist np_histogram c 20 of
                  Inl e \<Rightarrow> ([Subheader (''Histogram of **'' @ column_name @ ''**'')], Some e)
                | Inr fig \<Rightarrow>
                    ([Subheader (''Histogram of **'' @ column_name @ ''**''),
                      Pyplot (fig\<lparr>title := ''Histogram of '' @ column_name,
                                   xlabel := column_name, ylabel := ''Frequency''\<rparr>)], None))
          else ([Warning ''Please select a valid numerical column to plot.''], None)
      | None \<Rightarrow> ([Warning ''Please select a valid numerical column to plot.''], None))"

text \<open>
  One run of the script. The widgets' values are its input: the uploaded file, whether
  each button was pressed, and the position chosen in the select box (the first one
  unless the user picked another).
\<close>

record widgets =
  uploaded :: "uploaded_file option"
  stats_button :: bool
  histogram_button :: bool
  selected_index :: nat

definition numerical_cols_of :: "DataFrame \<Rightarrow> string list" where
  "numerical_cols_of frame = map fst (filter (\<lambda>(c, col). is_numeric_dtype col) frame)"

definition upload_step ::
  "(string \<Rightarrow> string + DataFrame) \<Rightarrow> uploaded_file option \<Rightarrow> session_state
     \<Rightarrow> session_state \<times> element list" where
  "upload_step read_csv file ss =
     (case file of
        None \<Rightarrow> (ss, [])
      | Some f \<Rightarrow>
          if df ss = None \<or> Some (name f) \<noteq> last_uploaded_name ss
          then (let (ss', shown) = load_data read_csv (Some f) ss
                in (ss'\<lparr>last_uploaded_name := Some (name f)\<rparr>, shown))
          else (ss, []))"

definition controls_step :: "widgets \<Rightarrow> DataFrame \<Rightarrow> session_state \<Rightarrow> session_state \<times> element list" where
  "controls_step w frame ss =
     (let ss1 = (if stats_button w then ss\<lparr>show_stats := True, show_plot := False\<rparr> else ss);
          numerical_cols = numerical_cols_of frame
      in if numerical_cols \<noteq> []
         then (let selected_col =
                     numerical_cols ! (if selected_index w < length numerical_cols
                                       then selected_index w else 0)
               in (if histogram_button w
                   then ss1\<lparr>show_stats := False, show_plot := True, plot_col := Some selected_col\<rparr>
                   else ss1, []))
         else (ss1, [Warning ''No numerical columns found for visualization.'']))"

definition output_step ::
  "histogram \<Rightarrow> DataFrame \<Rightarrow> session_state \<Rightarrow> element list \<times> py_error option" where
  "output_step np_histogram frame ss =
     (let (shown, raised) = (if show_stats ss then show_statistics frame else ([], None))
      in case raised of
           Some e \<Rightarrow> (shown, Some e)
         | None \<Rightarrow>
             (case plot_col ss of
                Some c \<Rightarrow>
                  if show_plot ss \<and> c \<noteq> []
                  then (let (plot, raised') = visualize_data np_histogram frame c
                        in (shown @ plot, raised'))
                  else (shown, None)
              | None \<Rightarrow> (shown, None)))"

definition script ::
  "(string \<Rightarrow> string + DataFrame) \<Rightarrow> histogram \<Rightarrow> widgets \<Rightarrow> session_state
     \<Rightarrow> session_state \<times> element list \<times> py_error option" where
  "script read_csv np_histogram w ss0 =
     (let top = [Title ''Data Analysis Web App'',
                 Markdown ''Upload a CSV file to analyze and visualize your data using **Pandas**, **NumPy**, and **Matplotlib**.''];
          (ss1, loaded) = upload_step read_csv (uploaded w) ss0
      in case df ss1 of
           None \<Rightarrow>
             (ss1, top @ loaded @ [Info ''Upload a CSV file above to begin the analysis.''], None)
         | Some frame \<Rightarrow>
             (let (ss2, controls) = controls_step w frame ss1;
                  (shown, raised) = output_step np_histogram frame ss2
              in (ss2, top @ loaded @ [Header ''Data Preview'', Dataframe (head frame)]
                         @ controls @ [Markdown ''---''] @ shown, raised)))"

section \<open>The desktop front-end (data_analyzer_tk.py)\<close>

text \<open>
  The global \<open>df\<close> and the widgets the three callbacks write to. \<open>messages\<close> collects
  the message boxes shown (title and text), \<open>plot_frame\<close> the figure drawn in the plot
  pane, \<open>output_text\<close> what the text pane holds.
\<close>

datatype inserted = Text string | Stats_text stats

record tk_state =
  tk_df :: "DataFrame option"
  output_text :: "inserted list"
  status_label :: "string \<times> string"
  analyze_button :: bool
  visualize_button :: bool
  col_select_var :: string
  col_select_menu :: "string list"
  plot_frame :: "figure list"
  messages :: "(string \<times> string) list"

text \<open>The last component of a path, as \<open>file_path.split('/')[-1]\<close> takes it.\<close>

fun basename :: "string \<Rightarrow> string" where
  "basename [] = []"
| "basename (c # cs) = (if CHR ''/'' \<in> set cs then basename cs
                        else if c = CHR ''/'' then cs else c # cs)"

text \<open>
  \<open>load_data\<close>: \<open>file_path\<close> is what the file dialog returned, empty when the user
  cancelled; \<open>read_csv\<close> stands for \<open>pd.read_csv\<close> on that path.
\<close>

definition tk_load_data ::
  "(string \<Rightarrow> string + DataFrame) \<Rightarrow> string \<Rightarrow> tk_state \<Rightarrow> tk_state" where
  "tk_load_data read_csv file_path s =
     (if file_path = [] then s
      else case read_csv file_path of
             Inr table \<Rightarrow>
               (let numerical_cols = numerical_cols_of table
                in s\<lparr>tk_df := Some table,
                     output_text := [],
                     status_label := (''File loaded: '' @ basename file_path, ''Green.TLabel''),
                     analyze_button := True,
                     visualize_button := True,
                     col_select_var := (case numerical_cols of [] \<Rightarrow> [] | c # _ \<Rightarrow> c),
                     col_select_menu := numerical_cols\<rparr>)
           | Inl e \<Rightarrow>
               s\<lparr>tk_df := None,
                 status_label := (''Error loading file: '' @ e, ''Red.TLabel''),
                 analyze_button := False,
                 visualize_button := False,
                 messages := messages s
                   @ [(''Loading Error'', ''Could not load file. Details: '' @ e)]\<rparr>)"

text \<open>
  The loop of \<open>show_statistics\<close>: it skips a described column that is not numeric. It
  yields the lines inserted into the text pane and the exception that ended it, if any.
\<close>

fun tk_ranges :: "DataFrame \<Rightarrow> string list \<Rightarrow> inserted list \<times> py_error option" where
  "tk_ranges frame [] = ([], None)"
| "tk_ranges frame (col # cols) =
     (case map_of frame col of
        None \<Rightarrow> ([], Some KeyError)
      | Some c \<Rightarrow>
          if is_numeric_dtype c
          then (case np_max c of
                  Inl e \<Rightarrow> ([], Some e)
                | Inr mx \<Rightarrow>
                    (case np_min c of
                       Inl e \<Rightarrow> ([], Some e)
                     | Inr mn \<Rightarrow>
                         (case py_sub mx mn of
                            Inl e \<Rightarrow> ([], Some e)
                          | Inr data_range \<Rightarrow>
                              (let (rows, raised) = tk_ranges frame cols
                               in (Text (''Range for **'' @ col @ ''**: ''
                                         @ format_2f data_range @ [CHR 0x0A]) # rows,
                                   raised)))))
          else tk_ranges frame cols)"

text \<open>
  A callback returns the state it leaves and the exception that ended it, if any: the
  event loop reports the exception and goes on.
\<close>

definition tk_show_statistics :: "tk_state \<Rightarrow> tk_state \<times> py_error option" where
  "tk_show_statistics s =
     (case tk_df s of
        None \<Rightarrow> (s\<lparr>messages := messages s @ [(''Error'', ''Please load a dataset first.'')]\<rparr>, None)
      | Some frame \<Rightarrow>
          (case describe frame of
             Inl e \<Rightarrow> (s\<lparr>output_text := []\<rparr>, Some e)
           | Inr stats_df \<Rightarrow>
               (let shown = [Text (''### Descriptive Statistics (Pandas) ###'' @ [CHR 0x0A, CHR 0x0A]),
                             Stats_text stats_df,
                             Text ([CHR 0x0A, CHR 0x0A] @ ''### Additional NumPy Analysis (Range) ###''
                                   @ [CHR 0x0A])];
                    (rows, raised) = tk_ranges frame (map fst stats_df)
                in (s\<lparr>output_text := shown @ rows\<rparr>, raised))))"

text \<open>
  \<open>visualize_data\<close>: the widgets of the plot pane are destroyed before the histogram is
  computed, so an exception leaves the pane empty.
\<close>

definition tk_visualize_data :: "histogram \<Rightarrow> tk_state \<Rightarrow> tk_state \<times> py_error option" where
  "tk_visualize_data np_histogram s =
     (case tk_df s of
        None \<Rightarrow> (s\<lparr>messages := messages s @ [(''Error'', ''Please load a dataset first.'')]\<rparr>, None)
      | Some frame \<Rightarrow>
          (let column_name = col_select_var s
           in case map_of frame column_name of
                Some c \<Rightarrow>
                  if column_name = [] \<or> \<not> is_numeric_dtype c
                  then (s\<lparr>messages := messages s
                          @ [(''Error'', ''Please select a valid numerical column for visualization.'')]\<rparr>,
                        None)
                  else (case hist np_histogram c 20 of
                          Inl e \<Rightarrow> (s\<lparr>plot_frame := []\<rparr>, Some e)
                        | Inr fig \<Rightarrow>
                            (s\<lparr>plot_frame :=
                                 [fig\<lparr>title := ''Histogram of '' @ column_name,
                                      xlabel := column_name, ylabel := ''Frequency''\<rparr>]\<rparr>, None))
              | None \<Rightarrow>
                  (s\<lparr>messages := messages s
                     @ [(''Error'', ''Please select a valid numerical column for visualization.'')]\<rparr>,
                   None)))"

section \<open>The range as the specification words it\<close>

text \<open>
  The specification's range of a numeric column: the maximum minus the minimum of its
  values that are not missing, in unbounded arithmetic (not a number when there is no
  value). It is compared below with what the Summarizer computes.
\<close>

fun spec_range :: "column \<Rightarrow> number" where
  "spec_range (Int64 xs) =
     (case (list_min xs, list_max xs) of
        (Some lo, Some hi) \<Rightarrow> I64 (hi - lo)
      | _ \<Rightarrow> F64 None)"
| "spec_range (Float64 xs) =
     (case (list_min (dropna xs), list_max (dropna xs)) of
        (Some lo, Some hi) \<Rightarrow> F64 (Some (hi - lo))
      | _ \<Rightarrow> F64 None)"
| "spec_range (Bool bs) = F64 None"
| "spec_range (Object xs) = F64 None"

text \<open>Whether the range of an integer column fits the 64-bit integers.\<close>

fun fits_int64 :: "column \<Rightarrow> bool" where
  "fits_int64 (Int64 xs) =
     (case (list_min xs, list_max xs) of
        (Some lo, Some hi) \<Rightarrow> hi - lo < 2 ^ 63
      | _ \<Rightarrow> True)"
| "fits_int64 _ = True"

section \<open>Properties\<close>

subsection \<open>The session's table\<close>

lemma load_data_df:
  "df (fst (load_data read_csv (Some f) ss)) =
     (case read_csv (getvalue f) of Inr table \<Rightarrow> Some table | Inl e \<Rightarrow> None)"
  by (simp add: load_data_def split: sum.splits)

lemma upload_step_df:
  "df (fst (upload_step read_csv (Some f) ss)) =
     (if df ss = None \<or> Some (name f) \<noteq> last_uploaded_name ss
      then (case read_csv (getvalue f) of Inr table \<Rightarrow> Some table | Inl e \<Rightarrow> None)
      else df ss)"
  by (simp add: upload_step_def load_data_def split: sum.splits)

lemma upload_step_name:
  "last_uploaded_name (fst (upload_step read_csv (Some f) ss)) =
     (if df ss = None \<or> Some (name f) \<noteq> last_uploaded_name ss
      then Some (name f) else last_uploaded_name ss)"
  by (simp add: upload_step_def load_data_def split: sum.splits)

lemma upload_step_None: "upload_step read_csv None ss = (ss, [])"
  by (simp add: upload_step_def)

lemma controls_step_df: "df (fst (controls_step w frame ss)) = df ss"
  by (simp add: controls_step_def Let_def)

lemma controls_step_name:
  "last_uploaded_name (fst (controls_step w frame ss)) = last_uploaded_name ss"
  by (simp add: controls_step_def Let_def)

lemma script_df: "df (fst (script read_csv np_histogram w ss)) = df (fst (upload_step read_csv (uploaded w) ss))"
  by (simp add: script_def Let_def controls_step_df split: prod.splits option.splits)
     (metis controls_step_df fst_conv)

lemma script_name:
  "last_uploaded_name (fst (script read_csv np_histogram w ss)) =
     last_uploaded_name (fst (upload_step read_csv (uploaded w) ss))"
  by (simp add: script_def Let_def split: prod.splits option.splits)
     (metis controls_step_name fst_conv)

lemma tk_load_data_df:
  "tk_df (tk_load_data read_path file_path s) =
     (if file_path = [] then tk_df s
      else case read_path file_path of Inr table \<Rightarrow> Some table | Inl e \<Rightarrow> None)"
  by (simp add: tk_load_data_def Let_def split: sum.splits)

lemma read_plain_csv_empty: "read_plain_csv [] = Inl ''No columns to parse from file''"
  by (simp add: read_plain_csv_def pd_read_csv_def plain_records_def read_records_def)

text \<open>
  C1 (as amended). When the Loader is invoked and the parse fails, the failure is reported
  with the description of the parse failure and the table of the session is cleared:
  no table is current afterwards, whatever was loaded before. This holds in the browser
  front-end (\<open>load_data\<close>, and the script that calls it for a file under a new name)
  and in the desktop front-end.
\<close>

theorem failed_load_clears_table:
  assumes "read_csv (getvalue f) = Inl e" and "file_path \<noteq> []" and "read_path file_path = Inl e'"
  shows "load_data read_csv (Some f) ss =
           (ss\<lparr>df := None\<rparr>,
            [Error (''Error loading file. Please check the format. Details: '' @ e)])
       \<and> (uploaded w = Some f \<and> Some (name f) \<noteq> last_uploaded_name ss
            \<longrightarrow> df (fst (script read_csv np_histogram w ss)) = None)
       \<and> tk_df (tk_load_data read_path file_path s) = None
       \<and> messages (tk_load_data read_path file_path s) =
            messages s @ [(''Loading Error'', ''Could not load file. Details: '' @ e')]"
  using assms by (simp add: load_data_def script_df upload_step_df tk_load_data_def)

theorem failed_load_clears_table_witness:
  "read_plain_csv [] = Inl ''No columns to parse from file''
   \<and> load_data read_plain_csv (Some \<lparr>name = ''empty.csv'', getvalue = []\<rparr>)
         \<lparr>df = Some [(''x'', Int64 [1])], last_uploaded_name = Some ''data.csv'',
          show_stats = False, show_plot = False, plot_col = None\<rparr> =
       (\<lparr>df = None, last_uploaded_name = Some ''data.csv'',
         show_stats = False, show_plot = False, plot_col = None\<rparr>,
        [Error ''Error loading file. Please check the format. Details: No columns to parse from file''])
   \<and> tk_df (tk_load_data (\<lambda>p. read_plain_csv []) ''/tmp/empty.csv''
         \<lparr>tk_df = Some [(''x'', Int64 [1])], output_text = [],
          status_label = (''File loaded: data.csv'', ''Green.TLabel''),
          analyze_button = True, visualize_button = True, col_select_var = ''x'',
          col_select_menu = [''x''], plot_frame = [], messages = []\<rparr>) = None"
  using failed_load_clears_table
    [where read_csv = read_plain_csv and f = "\<lparr>name = ''empty.csv'', getvalue = []\<rparr>"
       and e = "''No columns to parse from file''" and file_path = "''/tmp/empty.csv''"
       and read_path = "\<lambda>p. read_plain_csv []" and e' = "''No columns to parse from file''"
       and ss = "\<lparr>df = Some [(''x'', Int64 [1])], last_uploaded_name = Some ''data.csv'',
                  show_stats = False, show_plot = False, plot_col = None\<rparr>"
       and s = "\<lparr>tk_df = Some [(''x'', Int64 [1])], output_text = [],
                 status_label = (''File loaded: data.csv'', ''Green.TLabel''),
                 analyze_button = True, visualize_button = True, col_select_var = ''x'',
                 col_select_menu = [''x''], plot_frame = [], messages = []\<rparr>"]
  by (simp add: read_plain_csv_empty)

text \<open>
  C1 as stated fails: a session that holds a table loses it when a load fails.
\<close>

theorem failed_load_keeps_table_counterexample:
  "read_plain_csv [] = Inl ''No columns to parse from file''
   \<and> df (fst (load_data read_plain_csv (Some \<lparr>name = ''empty.csv'', getvalue = []\<rparr>)
         \<lparr>df = Some [(''x'', Int64 [1])], last_uploaded_name = Some ''data.csv'',
          show_stats = False, show_plot = False, plot_col = None\<rparr>))
       \<noteq> Some [(''x'', Int64 [1])]"
  by (simp add: read_plain_csv_empty load_data_def)


subsection \<open>Plot validation\<close>

lemma not_in_columns: "column_name \<notin> set (columns frame) \<longleftrightarrow> map_of frame column_name = None"
  by (simp add: columns_def map_of_eq_None_iff)

text \<open>
  C2 (as amended). When the requested column name is empty, is no column of the table, or
  names a column whose dtype is not numeric, the Plotter reports one and the same
  validation message, which does not tell these reasons apart, and produces no drawable
  output: the browser front-end shows only the warning, the desktop front-end only adds
  an error box and leaves the plot pane as it was.
\<close>

theorem invalid_column_generic_warning:
  assumes "column_name = [] \<or> column_name \<notin> set (columns frame)
           \<or> (\<exists>c. map_of frame column_name = Some c \<and> \<not> is_numeric_dtype c)"
  shows "visualize_data np_histogram frame column_name =
           ([Warning ''Please select a valid numerical column to plot.''], None)
       \<and> (tk_df s = Some frame \<and> col_select_var s = column_name
            \<longrightarrow> tk_visualize_data np_histogram s =
                  (s\<lparr>messages := messages s
                      @ [(''Error'', ''Please select a valid numerical column for visualization.'')]\<rparr>,
                   None))"
  using assms
  by (auto simp: visualize_data_def tk_visualize_data_def not_in_columns Let_def
           split: option.splits)

theorem invalid_column_generic_warning_witness:
  "visualize_data (\<lambda>xs bins. Inl ValueError)
     [(''city'', Object [Some ''Oslo'']), (''age'', Int64 [30])] ''city'' =
     ([Warning ''Please select a valid numerical column to plot.''], None)
   \<and> plot_frame (fst (tk_visualize_data (\<lambda>xs bins. Inl ValueError)
         \<lparr>tk_df = Some [(''city'', Object [Some ''Oslo'']), (''age'', Int64 [30])],
          output_text = [], status_label = (''File loaded: data.csv'', ''Green.TLabel''),
          analyze_button = True, visualize_button = True, col_select_var = ''city'',
          col_select_menu = [''age''], plot_frame = [], messages = []\<rparr>)) = []"
  using invalid_column_generic_warning
    [where column_name = "''city''" and np_histogram = "\<lambda>xs bins. Inl ValueError"
       and frame = "[(''city'', Object [Some ''Oslo'']), (''age'', Int64 [30])]"
       and s = "\<lparr>tk_df = Some [(''city'', Object [Some ''Oslo'']), (''age'', Int64 [30])],
          output_text = [], status_label = (''File loaded: data.csv'', ''Green.TLabel''),
          analyze_button = True, visualize_button = True, col_select_var = ''city'',
          col_select_menu = [''age''], plot_frame = [], messages = []\<rparr>"]
  by simp

text \<open>
  C2 as stated fails: a missing column and a text column get the same message, so the
  message names neither "column not found" nor "column not numeric".
\<close>

theorem validation_reason_counterexample:
  "''height'' \<notin> set (columns [(''city'', Object [Some ''Oslo'']), (''age'', Int64 [30])])
   \<and> map_of [(''city'', Object [Some ''Oslo'']), (''age'', Int64 [30])] ''city''
       = Some (Object [Some ''Oslo''])
   \<and> visualize_data (\<lambda>xs bins. Inl ValueError)
         [(''city'', Object [Some ''Oslo'']), (''age'', Int64 [30])] ''height''
       = ([Warning ''Please select a valid numerical column to plot.''], None)
   \<and> visualize_data (\<lambda>xs bins. Inl ValueError)
         [(''city'', Object [Some ''Oslo'']), (''age'', Int64 [30])] ''city''
       = ([Warning ''Please select a valid numerical column to plot.''], None)"
  by (simp add: visualize_data_def columns_def)

text \<open>
  The other branch of the Plotter: for a column that passes the validation, the values
  that are not missing go to \<open>np.histogram\<close> with 20 bins, and the counts and edges it
  returns are drawn under the column's name and "Frequency"; when the call raises, as
  it does on a boolean column, nothing is drawn.
\<close>

lemma visualize_data_valid:
  assumes "map_of frame column_name = Some c" and "column_name \<noteq> []"
    and "is_numeric_dtype c"
  shows "visualize_data np_histogram frame column_name =
           (case hist np_histogram c 20 of
              Inl e \<Rightarrow> ([Subheader (''Histogram of **'' @ column_name @ ''**'')], Some e)
            | Inr fig \<Rightarrow>
                ([Subheader (''Histogram of **'' @ column_name @ ''**''),
                  Pyplot (fig\<lparr>title := ''Histogram of '' @ column_name,
                               xlabel := column_name, ylabel := ''Frequency''\<rparr>)], None))"
  using assms by (simp add: visualize_data_def)

lemma hist_boolean: "hist np_histogram (Bool bs) bins = Inl TypeError"
  by (simp add: hist_def)

lemma hist_numbers:
  "hist np_histogram (Int64 xs) bins =
     (case np_histogram (map of_int xs) bins of
        Inl e \<Rightarrow> Inl e
      | Inr (n, edges) \<Rightarrow>
          Inr \<lparr>title = [], xlabel = [], ylabel = [], bin_edges = edges, counts = n\<rparr>)"
  "hist np_histogram (Float64 ys) bins =
     (case np_histogram (dropna ys) bins of
        Inl e \<Rightarrow> Inl e
      | Inr (n, edges) \<Rightarrow>
          Inr \<lparr>title = [], xlabel = [], ylabel = [], bin_edges = edges, counts = n\<rparr>)"
  by (simp_all add: hist_def)

subsection \<open>Loading twice, and what replaces the table\<close>

text \<open>
  C8. Loading the same file twice in succession yields the same table both times: the
  result of a load depends on the file alone, not on the state left by earlier loads.
  This holds for \<open>load_data\<close>, for two runs of the script with the same uploaded file,
  and for the desktop front-end.
\<close>

theorem reload_same_table:
  "df (fst (load_data read_csv (Some f) (fst (load_data read_csv (Some f) ss))))
     = df (fst (load_data read_csv (Some f) ss))
   \<and> df (fst (load_data read_csv (Some f) ss)) = df (fst (load_data read_csv (Some f) ss'))
   \<and> (uploaded w = Some f \<and> uploaded w' = Some f
        \<longrightarrow> df (fst (script read_csv np_histogram w' (fst (script read_csv np_histogram w ss))))
              = df (fst (script read_csv np_histogram w ss)))
   \<and> tk_df (tk_load_data read_path file_path (tk_load_data read_path file_path s))
       = tk_df (tk_load_data read_path file_path s)"
  by (auto simp: load_data_df script_df script_name upload_step_df upload_step_name
        tk_load_data_df split: sum.splits)

theorem reload_same_table_witness:
  "df (fst (load_data read_plain_csv (Some \<lparr>name = ''data.csv'', getvalue = ''x'' @ [CHR 0x0A] @ ''1''\<rparr>)
        (fst (load_data read_plain_csv (Some \<lparr>name = ''data.csv'', getvalue = ''x'' @ [CHR 0x0A] @ ''1''\<rparr>)
           \<lparr>df = None, last_uploaded_name = None,
            show_stats = False, show_plot = False, plot_col = None\<rparr>))))
     = Some [(''x'', Int64 [1])]"
proof -
  have "read_plain_csv (''x'' @ [CHR 0x0A] @ ''1'') = Inr [(''x'', Int64 [1])]"
    by code_simp
  then show ?thesis
    using reload_same_table
      [where read_csv = read_plain_csv
         and f = "\<lparr>name = ''data.csv'', getvalue = ''x'' @ [CHR 0x0A] @ ''1''\<rparr>"
         and ss = "\<lparr>df = None, last_uploaded_name = None,
            show_stats = False, show_plot = False, plot_col = None\<rparr>"]
    by (simp add: load_data_df)
qed

lemma tk_show_statistics_df: "tk_df (fst (tk_show_statistics s)) = tk_df s"
  by (simp add: tk_show_statistics_def Let_def split: option.splits sum.splits prod.splits)

lemma tk_visualize_data_df: "tk_df (fst (tk_visualize_data np_histogram s)) = tk_df s"
  by (simp add: tk_visualize_data_def Let_def split: option.splits sum.splits)

text \<open>
  C9. Invoking the Summarizer or the Plotter leaves the loaded table unchanged. In the
  browser front-end a run of the script without an upload keeps the table, whichever
  buttons are pressed, and a run that changes the table is one where the Loader was
  invoked for an uploaded file; in the desktop front-end neither callback changes it.
\<close>

theorem analysis_keeps_table:
  "(uploaded w = None \<longrightarrow> df (fst (script read_csv np_histogram w ss)) = df ss)
   \<and> (df (fst (script read_csv np_histogram w ss)) \<noteq> df ss
        \<longrightarrow> (\<exists>f. uploaded w = Some f
                 \<and> (df ss = None \<or> Some (name f) \<noteq> last_uploaded_name ss)))
   \<and> tk_df (fst (tk_show_statistics s)) = tk_df s
   \<and> tk_df (fst (tk_visualize_data np_histogram s)) = tk_df s"
proof -
  have a: "uploaded w = None \<longrightarrow> df (fst (script read_csv np_histogram w ss)) = df ss"
    by (simp add: script_df upload_step_None)
  have b: "df (fst (script read_csv np_histogram w ss)) \<noteq> df ss
        \<longrightarrow> (\<exists>f. uploaded w = Some f
                 \<and> (df ss = None \<or> Some (name f) \<noteq> last_uploaded_name ss))"
    by (cases "uploaded w") (auto simp: script_df upload_step_None upload_step_df)
  show ?thesis
    using a b by (simp add: tk_show_statistics_df tk_visualize_data_df)
qed

theorem analysis_keeps_table_witness:
  "df (fst (script read_plain_csv (\<lambda>xs bins. Inl ValueError)
        \<lparr>uploaded = None, stats_button = True, histogram_button = False, selected_index = 0\<rparr>
        \<lparr>df = Some [(''x'', Int64 [1, 2])], last_uploaded_name = Some ''data.csv'',
         show_stats = False, show_plot = True, plot_col = Some ''x''\<rparr>))
     = Some [(''x'', Int64 [1, 2])]"
  using analysis_keeps_table
    [where w = "\<lparr>uploaded = None, stats_button = True, histogram_button = False,
                 selected_index = 0\<rparr>"
       and read_csv = read_plain_csv
       and ss = "\<lparr>df = Some [(''x'', Int64 [1, 2])], last_uploaded_name = Some ''data.csv'',
         show_stats = False, show_plot = True, plot_col = Some ''x''\<rparr>"]
  by simp

text \<open>
  C10. In the browser front-end, when the session holds a table and the uploaded file has
  the name of the last loaded file, the Loader is not invoked: the run of the script does
  not depend on the parser at all, and the table stays the one loaded before, whatever
  the content of the newly selected file.
\<close>

theorem same_name_skips_loader:
  assumes "df ss = Some table" and "last_uploaded_name ss = Some (name f)"
    and "uploaded w = Some f"
  shows "upload_step read_csv (uploaded w) ss = (ss, [])
       \<and> df (fst (script read_csv np_histogram w ss)) = Some table
       \<and> script read_csv np_histogram w ss = script read_csv' np_histogram w ss"
proof -
  have u: "upload_step r (Some f) ss = (ss, [])" for r
    using assms by (simp add: upload_step_def)
  have "df (fst (script read_csv np_histogram w ss)) = Some table"
    using assms by (simp add: script_df u)
  moreover have "script read_csv np_histogram w ss = script read_csv' np_histogram w ss"
    using assms by (simp add: script_def u)
  ultimately show ?thesis
    using u assms by simp
qed

theorem same_name_skips_loader_witness:
  "df (fst (script read_plain_csv (\<lambda>xs bins. Inl ValueError)
        \<lparr>uploaded = Some \<lparr>name = ''data.csv'', getvalue = ''y'' @ [CHR 0x0A] @ ''7''\<rparr>,
         stats_button = False, histogram_button = False, selected_index = 0\<rparr>
        \<lparr>df = Some [(''x'', Int64 [1, 2])], last_uploaded_name = Some ''data.csv'',
         show_stats = False, show_plot = False, plot_col = None\<rparr>))
     = Some [(''x'', Int64 [1, 2])]"
  using same_name_skips_loader
    [where ss = "\<lparr>df = Some [(''x'', Int64 [1, 2])], last_uploaded_name = Some ''data.csv'',
         show_stats = False, show_plot = False, plot_col = None\<rparr>"
       and f = "\<lparr>name = ''data.csv'', getvalue = ''y'' @ [CHR 0x0A] @ ''7''\<rparr>"
       and table = "[(''x'', Int64 [1, 2])]"
       and read_csv = read_plain_csv
       and w = "\<lparr>uploaded = Some \<lparr>name = ''data.csv'', getvalue = ''y'' @ [CHR 0x0A] @ ''7''\<rparr>,
         stats_button = False, histogram_button = False, selected_index = 0\<rparr>"]
  by simp

subsection \<open>Which columns the Summarizer describes\<close>

lemma describe_columns:
  "frame \<noteq> [] \<Longrightarrow>
     describe frame =
       Inr (map (\<lambda>(c, col). (c, describe_1d col))
              (if filter (\<lambda>(c, col). is_number col) frame = [] then frame
               else filter (\<lambda>(c, col). is_number col) frame))"
  by (simp add: describe_def Let_def)

lemma map_fst_described: "map fst (map (\<lambda>(c, col). (c, describe_1d col)) xs) = map fst xs"
  by (induction xs) auto

lemma show_statistics_shows:
  "describe frame = Inr st \<Longrightarrow> Dataframe_stats st \<in> set (fst (show_statistics frame))"
  by (simp add: show_statistics_def Let_def split: sum.splits)

lemma tk_show_statistics_shows:
  "tk_df s = Some frame \<Longrightarrow> describe frame = Inr st
     \<Longrightarrow> Stats_text st \<in> set (output_text (fst (tk_show_statistics s)))"
  by (simp add: tk_show_statistics_def Let_def split: sum.splits prod.splits)

text \<open>
  C5 (as amended). For every table with at least one column of integer or float dtype,
  the Summarizer's result has an entry for exactly those columns, in the table's column
  order, and both front-ends display it. For a table whose columns are all of another
  dtype the result is not empty: it has an entry for every column of the table.
\<close>

theorem summarizer_columns:
  assumes "frame \<noteq> []"
  shows "\<exists>st. describe frame = Inr st
           \<and> map fst st =
               (if \<exists>x \<in> set frame. is_number (snd x)
                then map fst (filter (\<lambda>(c, col). is_number col) frame)
                else map fst frame)
           \<and> Dataframe_stats st \<in> set (fst (show_statistics frame))
           \<and> (tk_df s = Some frame
                \<longrightarrow> Stats_text st \<in> set (output_text (fst (tk_show_statistics s))))"
proof -
  let ?data = "filter (\<lambda>(c, col). is_number col) frame"
  let ?st = "map (\<lambda>(c, col). (c, describe_1d col)) (if ?data = [] then frame else ?data)"
  have d: "describe frame = Inr ?st"
    using assms by (rule describe_columns)
  have e: "(?data = []) = (\<not> (\<exists>x \<in> set frame. is_number (snd x)))"
    by (auto simp: filter_empty_conv)
  have "map fst ?st =
          (if \<exists>x \<in> set frame. is_number (snd x) then map fst ?data else map fst frame)"
    unfolding map_fst_described using e by auto
  then show ?thesis
    using d show_statistics_shows [OF d] tk_show_statistics_shows [OF _ d] by blast
qed

theorem summarizer_columns_witness:
  "describe [(''city'', Object [Some ''Oslo'', Some ''Rome'']), (''age'', Int64 [30, 41]),
             (''score'', Float64 [Some (1 / 2), None])]
     = Inr [(''age'', Numeric_summary 2 (Some (71 / 2)) (Some 30) (Some 41)),
            (''score'', Numeric_summary 1 (Some (1 / 2)) (Some (1 / 2)) (Some (1 / 2)))]"
proof -
  have "[(''city'', Object [Some ''Oslo'', Some ''Rome'']), (''age'', Int64 [30, 41]),
             (''score'', Float64 [Some (1 / 2), None])] \<noteq> []"
    by simp
  from summarizer_columns [OF this] show ?thesis
    by (simp add: describe_def describe_numeric_def)
qed

text \<open>
  C5 as stated fails: for a table with only a text column the result has an entry for
  that column.
\<close>

theorem text_column_described_counterexample:
  "describe [(''city'', Object [Some ''Oslo'', Some ''Rome''])]
     = Inr [(''city'', Categorical_summary 2 2)]
   \<and> \<not> is_number (Object [Some ''Oslo'', Some ''Rome''])"
  by (simp add: describe_def describe_categorical_def)


subsection \<open>Tables without numeric columns\<close>

lemma tk_ranges_no_numeric:
  "\<forall>x \<in> set frame. \<not> is_numeric_dtype (snd x) \<Longrightarrow> set cols \<subseteq> fst ` set frame
     \<Longrightarrow> tk_ranges frame cols = ([], None)"
proof (induction cols)
  case Nil
  then show ?case by simp
next
  case (Cons col cols)
  then obtain c where c: "map_of frame col = Some c"
    by (cases "map_of frame col") (auto simp: map_of_eq_None_iff)
  then have "(col, c) \<in> set frame"
    by (rule map_of_SomeD)
  with Cons.prems have "\<not> is_numeric_dtype c"
    by force
  with c Cons show ?case by simp
qed

lemma no_numeric_no_number:
  "\<forall>x \<in> set frame. \<not> is_numeric_dtype (snd x) \<Longrightarrow> filter (\<lambda>(c, col). is_number col) frame = []"
proof -
  have "\<not> is_numeric_dtype col \<Longrightarrow> \<not> is_number col" for col
    by (cases col) auto
  then show "\<forall>x \<in> set frame. \<not> is_numeric_dtype (snd x)
      \<Longrightarrow> filter (\<lambda>(c, col). is_number col) frame = []"
    by (auto simp: filter_empty_conv)
qed

lemma no_numeric_cols:
  "\<forall>x \<in> set frame. \<not> is_numeric_dtype (snd x) \<Longrightarrow> numerical_cols_of frame = []"
  by (auto simp: numerical_cols_of_def filter_empty_conv)

lemma upload_step_show_stats:
  "show_stats (fst (upload_step read_csv file ss)) = show_stats ss"
  by (simp add: upload_step_def load_data_def split: option.splits sum.splits)

lemma output_step_shows:
  "show_stats ss \<Longrightarrow> set (fst (show_statistics frame)) \<subseteq> set (fst (output_step np_histogram frame ss))"
  by (auto simp: output_step_def Let_def split: prod.splits option.splits)

lemma script_no_numeric:
  assumes "df (fst (upload_step read_csv (uploaded w) ss)) = Some frame"
    and "numerical_cols_of frame = []"
  shows "Warning ''No numerical columns found for visualization.''
           \<in> set (fst (snd (script read_csv np_histogram w ss)))"
    and "stats_button w \<or> show_stats ss
           \<Longrightarrow> set (fst (show_statistics frame))
                 \<subseteq> set (fst (snd (script read_csv np_histogram w ss)))"
proof -
  obtain ss1 loaded where u: "upload_step read_csv (uploaded w) ss = (ss1, loaded)"
    by (cases "upload_step read_csv (uploaded w) ss")
  have d: "df ss1 = Some frame"
    using assms(1) u by simp
  have st: "show_stats ss1 = show_stats ss"
    using upload_step_show_stats [of read_csv "uploaded w" ss] u by simp
  let ?ss2 = "if stats_button w then ss1\<lparr>show_stats := True, show_plot := False\<rparr> else ss1"
  have c: "controls_step w frame ss1 =
             (?ss2, [Warning ''No numerical columns found for visualization.''])"
    using assms(2) by (simp add: controls_step_def Let_def)
  obtain shown raised where o: "output_step np_histogram frame ?ss2 = (shown, raised)"
    by (cases "output_step np_histogram frame ?ss2")
  have page: "fst (snd (script read_csv np_histogram w ss)) =
      [Title ''Data Analysis Web App'',
       Markdown ''Upload a CSV file to analyze and visualize your data using **Pandas**, **NumPy**, and **Matplotlib**.'']
      @ loaded @ [Header ''Data Preview'', Dataframe (head frame)]
      @ [Warning ''No numerical columns found for visualization.''] @ [Markdown ''---''] @ shown"
    unfolding script_def u using d c o by (simp add: Let_def)
  show "Warning ''No numerical columns found for visualization.''
           \<in> set (fst (snd (script read_csv np_histogram w ss)))"
    unfolding page by simp
  assume "stats_button w \<or> show_stats ss"
  then have "show_stats ?ss2"
    using st by auto
  then have "set (fst (show_statistics frame)) \<subseteq> set shown"
    using output_step_shows [of ?ss2 frame np_histogram] o by simp
  then show "set (fst (show_statistics frame))
                 \<subseteq> set (fst (snd (script read_csv np_histogram w ss)))"
    unfolding page by auto
qed

text \<open>
  C3 (as amended). For every table that has at least one column and no column of a
  numeric dtype (integer, float or boolean: a table with a boolean column is not covered
  here), the Summarizer's descriptive statistics are not empty: they have an entry for
  every column of the table. The desktop front-end displays them with no range line and
  raises no error. In the browser front-end, every run of the script whose current table
  is such a table, whether the uploader still holds the file or not, shows the warning
  "No numerical columns found for visualization." among its controls; and when the
  statistics are asked for (the button is pressed, or was pressed in an earlier run),
  the table of statistics is displayed on the same page: the warning does not stand in
  its place.
\<close>

theorem no_numeric_columns_summary:
  assumes "frame \<noteq> []" and "\<forall>x \<in> set frame. \<not> is_numeric_dtype (snd x)"
  shows "describe frame = Inr (map (\<lambda>(c, col). (c, describe_1d col)) frame)
       \<and> (tk_df s = Some frame
            \<longrightarrow> tk_show_statistics s =
                  (s\<lparr>output_text :=
                       [Text (''### Descriptive Statistics (Pandas) ###'' @ [CHR 0x0A, CHR 0x0A]),
                        Stats_text (map (\<lambda>(c, col). (c, describe_1d col)) frame),
                        Text ([CHR 0x0A, CHR 0x0A] @ ''### Additional NumPy Analysis (Range) ###''
                              @ [CHR 0x0A])]\<rparr>, None))
       \<and> (df (fst (upload_step read_csv (uploaded w) ss)) = Some frame
            \<longrightarrow> Warning ''No numerical columns found for visualization.''
                  \<in> set (fst (snd (script read_csv np_histogram w ss)))
                \<and> (stats_button w \<or> show_stats ss
                     \<longrightarrow> Dataframe_stats (map (\<lambda>(c, col). (c, describe_1d col)) frame)
                           \<in> set (fst (snd (script read_csv np_histogram w ss)))))"
proof -
  have d: "describe frame = Inr (map (\<lambda>(c, col). (c, describe_1d col)) frame)"
    using assms by (simp add: describe_columns no_numeric_no_number)
  have r: "tk_ranges frame (map fst (map (\<lambda>(c, col). (c, describe_1d col)) frame)) = ([], None)"
  proof -
    have "tk_ranges frame (map fst frame) = ([], None)"
      using assms(2) by (intro tk_ranges_no_numeric) simp_all
    then show ?thesis
      by (simp only: map_fst_described)
  qed
  have t: "tk_df s = Some frame
            \<longrightarrow> tk_show_statistics s =
                  (s\<lparr>output_text :=
                       [Text (''### Descriptive Statistics (Pandas) ###'' @ [CHR 0x0A, CHR 0x0A]),
                        Stats_text (map (\<lambda>(c, col). (c, describe_1d col)) frame),
                        Text ([CHR 0x0A, CHR 0x0A] @ ''### Additional NumPy Analysis (Range) ###''
                              @ [CHR 0x0A])]\<rparr>, None)"
    using d r by (simp add: tk_show_statistics_def Let_def)
  have n: "numerical_cols_of frame = []"
    using assms(2) by (rule no_numeric_cols)
  have b: "df (fst (upload_step read_csv (uploaded w) ss)) = Some frame
            \<longrightarrow> Warning ''No numerical columns found for visualization.''
                  \<in> set (fst (snd (script read_csv np_histogram w ss)))
                \<and> (stats_button w \<or> show_stats ss
                     \<longrightarrow> Dataframe_stats (map (\<lambda>(c, col). (c, describe_1d col)) frame)
                           \<in> set (fst (snd (script read_csv np_histogram w ss))))"
    using script_no_numeric [OF _ n, of read_csv w ss np_histogram] show_statistics_shows [OF d]
    by blast
  show ?thesis
    using d t b by blast
qed

theorem no_numeric_columns_summary_witness:
  "describe [(''city'', Object [Some ''Oslo'', Some ''Rome''])]
     = Inr [(''city'', Categorical_summary 2 2)]
   \<and> snd (tk_show_statistics
        \<lparr>tk_df = Some [(''city'', Object [Some ''Oslo'', Some ''Rome''])], output_text = [],
         status_label = (''File loaded: data.csv'', ''Green.TLabel''),
         analyze_button = True, visualize_button = True, col_select_var = [],
         col_select_menu = [], plot_frame = [], messages = []\<rparr>) = None
   \<and> Warning ''No numerical columns found for visualization.''
       \<in> set (fst (snd (script read_plain_csv (\<lambda>xs bins. Inl ValueError)
            \<lparr>uploaded = Some \<lparr>name = ''data.csv'', getvalue = ''city''\<rparr>,
             stats_button = True, histogram_button = False, selected_index = 0\<rparr>
            \<lparr>df = Some [(''city'', Object [Some ''Oslo'', Some ''Rome''])],
             last_uploaded_name = Some ''data.csv'',
             show_stats = False, show_plot = False, plot_col = None\<rparr>)))
   \<and> Dataframe_stats [(''city'', Categorical_summary 2 2)]
       \<in> set (fst (snd (script read_plain_csv (\<lambda>xs bins. Inl ValueError)
            \<lparr>uploaded = Some \<lparr>name = ''data.csv'', getvalue = ''city''\<rparr>,
             stats_button = True, histogram_button = False, selected_index = 0\<rparr>
            \<lparr>df = Some [(''city'', Object [Some ''Oslo'', Some ''Rome''])],
             last_uploaded_name = Some ''data.csv'',
             show_stats = False, show_plot = False, plot_col = None\<rparr>)))"
proof -
  have a: "[(''city'', Object [Some ''Oslo'', Some ''Rome''])] \<noteq> []"
    by simp
  have b: "\<forall>x \<in> set [(''city'', Object [Some ''Oslo'', Some ''Rome''])].
             \<not> is_numeric_dtype (snd x)"
    by simp
  have u: "df (fst (upload_step read_plain_csv
              (uploaded \<lparr>uploaded = Some \<lparr>name = ''data.csv'', getvalue = ''city''\<rparr>,
                 stats_button = True, histogram_button = False, selected_index = 0\<rparr>)
              \<lparr>df = Some [(''city'', Object [Some ''Oslo'', Some ''Rome''])],
               last_uploaded_name = Some ''data.csv'',
               show_stats = False, show_plot = False, plot_col = None\<rparr>))
           = Some [(''city'', Object [Some ''Oslo'', Some ''Rome''])]"
    by (simp add: upload_step_def)
  show ?thesis
    using no_numeric_columns_summary
      [OF a b,
       where s = "\<lparr>tk_df = Some [(''city'', Object [Some ''Oslo'', Some ''Rome''])], output_text = [],
         status_label = (''File loaded: data.csv'', ''Green.TLabel''),
         analyze_button = True, visualize_button = True, col_select_var = [],
         col_select_menu = [], plot_frame = [], messages = []\<rparr>"
       and read_csv = read_plain_csv and np_histogram = "\<lambda>xs bins. Inl ValueError"
       and w = "\<lparr>uploaded = Some \<lparr>name = ''data.csv'', getvalue = ''city''\<rparr>,
                 stats_button = True, histogram_button = False, selected_index = 0\<rparr>"
       and ss = "\<lparr>df = Some [(''city'', Object [Some ''Oslo'', Some ''Rome''])],
               last_uploaded_name = Some ''data.csv'',
               show_stats = False, show_plot = False, plot_col = None\<rparr>"]
      u
    by (simp add: describe_categorical_def numeral_2_eq_2)
qed

text \<open>
  C3 as stated fails: for a table with only a text column the statistics are not empty,
  and the browser front-end's Summarizer ends with an exception after displaying them.
\<close>

theorem no_numeric_columns_counterexample:
  "describe [(''city'', Object [Some ''Oslo'', Some ''Rome''])]
     = Inr [(''city'', Categorical_summary 2 2)]
   \<and> show_statistics [(''city'', Object [Some ''Oslo'', Some ''Rome''])]
     = ([Subheader ''Descriptive Statistics (Pandas)'',
         Dataframe_stats [(''city'', Categorical_summary 2 2)],
         Subheader ''Additional NumPy Analysis (Range)''], Some TypeError)"
  by (simp add: describe_def describe_categorical_def show_statistics_def)

subsection \<open>The range of a numeric column\<close>

lemma list_min_Min: "xs \<noteq> [] \<Longrightarrow> list_min xs = Some (Min (set xs))"
proof (cases xs)
  case Nil
  assume "xs \<noteq> []"
  with Nil show ?thesis by simp
next
  case (Cons a list)
  have "fold min list a = Min (set (a # list))"
    by (rule Min.set_eq_fold [symmetric])
  with Cons show ?thesis by simp
qed

lemma list_max_Max: "xs \<noteq> [] \<Longrightarrow> list_max xs = Some (Max (set xs))"
proof (cases xs)
  case Nil
  assume "xs \<noteq> []"
  with Nil show ?thesis by simp
next
  case (Cons a list)
  have "fold max list a = Max (set (a # list))"
    by (rule Max.set_eq_fold [symmetric])
  with Cons show ?thesis by simp
qed

lemma wrap64_id: "- (2 ^ 63) \<le> x \<Longrightarrow> x < 2 ^ 63 \<Longrightarrow> wrap64 x = x"
  by (simp add: wrap64_def)

lemma list_min_le_max:
  "list_min xs = Some lo \<Longrightarrow> list_max xs = Some hi \<Longrightarrow> lo \<le> hi"
  by (cases "xs = []") (auto simp: list_min_Min list_max_Max Min_le_iff)

lemma column_range:
  assumes "is_number c" and "fits_int64 c"
  shows "\<exists>mx mn. np_max c = Inr mx \<and> np_min c = Inr mn \<and> py_sub mx mn = Inr (spec_range c)"
proof (cases c)
  case (Int64 xs)
  show ?thesis
  proof (cases xs)
    case Nil
    with Int64 show ?thesis by simp
  next
    case (Cons a as)
    then obtain lo hi where m: "list_min xs = Some lo" "list_max xs = Some hi"
      by simp
    then have "0 \<le> hi - lo"
      using list_min_le_max by fastforce
    moreover have "hi - lo < 2 ^ 63"
      using assms(2) Int64 m by simp
    ultimately have "wrap64 (hi - lo) = hi - lo"
      by (intro wrap64_id) simp_all
    with Int64 m show ?thesis by simp
  qed
next
  case (Float64 xs)
  then show ?thesis
    by (cases "list_min (dropna xs)"; cases "list_max (dropna xs)") simp_all
next
  case (Bool bs)
  with assms show ?thesis by simp
next
  case (Object xs)
  with assms show ?thesis by simp
qed

lemma range_data_exact:
  assumes "distinct (map fst frame)" and "set cols \<subseteq> set frame"
    and "\<forall>x \<in> set cols. is_number (snd x) \<and> fits_int64 (snd x)"
  shows "range_data frame (map fst cols) =
           Inr (map (\<lambda>(c, col). (c, format_2f (spec_range col))) cols)"
  using assms(2,3)
proof (induction cols)
  case Nil
  then show ?case by simp
next
  case (Cons x cols)
  obtain c col where x: "x = (c, col)" by (cases x)
  with Cons.prems have "(c, col) \<in> set frame" by simp
  then have m: "map_of frame c = Some col"
    using assms(1) by simp
  from Cons.prems x obtain mx mn where
    "np_max col = Inr mx" "np_min col = Inr mn" "py_sub mx mn = Inr (spec_range col)"
    using column_range [of col] by auto
  moreover have "range_data frame (map fst cols) =
      Inr (map (\<lambda>(c, col). (c, format_2f (spec_range col))) cols)"
    using Cons by simp
  ultimately show ?case
    using x m by simp
qed

lemma tk_ranges_exact:
  assumes "distinct (map fst frame)" and "set cols \<subseteq> set frame"
    and "\<forall>x \<in> set cols. is_number (snd x) \<and> fits_int64 (snd x)"
  shows "tk_ranges frame (map fst cols) =
           (map (\<lambda>(c, col). Text (''Range for **'' @ c @ ''**: ''
                                    @ format_2f (spec_range col) @ [CHR 0x0A])) cols, None)"
  using assms(2,3)
proof (induction cols)
  case Nil
  then show ?case by simp
next
  case (Cons x cols)
  obtain c col where x: "x = (c, col)" by (cases x)
  with Cons.prems have "(c, col) \<in> set frame" by simp
  then have m: "map_of frame c = Some col"
    using assms(1) by simp
  have n: "is_numeric_dtype col"
    using Cons.prems x by (cases col) auto
  from Cons.prems x obtain mx mn where
    "np_max col = Inr mx" "np_min col = Inr mn" "py_sub mx mn = Inr (spec_range col)"
    using column_range [of col] by auto
  moreover have "tk_ranges frame (map fst cols) =
      (map (\<lambda>(c, col). Text (''Range for **'' @ c @ ''**: ''
                               @ format_2f (spec_range col) @ [CHR 0x0A])) cols, None)"
    using Cons by simp
  ultimately show ?case
    using x m n by simp
qed

text \<open>
  For a table with a numeric column and distinct column names, whose integer columns
  have a range that fits 64 bits, the range displayed for every numeric column is the
  specification's range as \<open>format_2f\<close> prints it: an integer range is converted to
  float64, and the value is rounded to two decimals for display only.
\<close>

lemma range_is_max_minus_min:
  assumes "distinct (map fst frame)" and "\<exists>x \<in> set frame. is_number (snd x)"
    and "\<forall>x \<in> set frame. fits_int64 (snd x)"
  shows "\<exists>st. show_statistics frame =
           ([Subheader ''Descriptive Statistics (Pandas)'', Dataframe_stats st,
             Subheader ''Additional NumPy Analysis (Range)'',
             Table_ranges (map (\<lambda>(c, col). (c, format_2f (spec_range col)))
                             (filter (\<lambda>(c, col). is_number col) frame))], None)"
proof -
  let ?data = "filter (\<lambda>(c, col). is_number col) frame"
  have ne: "?data \<noteq> []"
    using assms(2) by (auto simp: filter_empty_conv)
  then have f: "frame \<noteq> []" by auto
  have d: "describe frame = Inr (map (\<lambda>(c, col). (c, describe_1d col)) ?data)"
    using describe_columns [OF f] ne by simp
  have r: "range_data frame (map fst ?data) =
             Inr (map (\<lambda>(c, col). (c, format_2f (spec_range col))) ?data)"
    using assms(3) by (intro range_data_exact [OF assms(1)]) auto
  have "show_statistics frame =
          ([Subheader ''Descriptive Statistics (Pandas)'',
            Dataframe_stats (map (\<lambda>(c, col). (c, describe_1d col)) ?data),
            Subheader ''Additional NumPy Analysis (Range)'',
            Table_ranges (map (\<lambda>(c, col). (c, format_2f (spec_range col))) ?data)], None)"
    unfolding show_statistics_def d
    by (simp only: sum.case Let_def map_fst_described r) (use ne in simp)
  then show ?thesis by blast
qed


lemma range_example:
  "show_statistics [(''a'', Int64 [1, 2, 3, 4, 5])] =
     ([Subheader ''Descriptive Statistics (Pandas)'',
       Dataframe_stats [(''a'', Numeric_summary 5 (Some 3) (Some 1) (Some 5))],
       Subheader ''Additional NumPy Analysis (Range)'',
       Table_ranges [(''a'', ''4.00'')]], None)"
proof -
  have f: "float64_of_nat 4 = 4"
    by (simp add: float64_of_nat_def excess_bits.simps Let_def)
  have k: "format_2f (I64 4) = ''4.00''"
    by (simp add: fixed2_def f str_nat.simps digit_def)
  have w: "wrap64 4 = 4"
    by (simp add: wrap64_def)
  show ?thesis
    by (simp add: show_statistics_def describe_def describe_numeric_def Let_def w k
          del: format_2f.simps)
qed

text \<open>
  Above \<open>2 ^ 53\<close> the displayed range is the float nearest to the integer range.
\<close>

lemma rounded_display: "format_2f (I64 9007199254740993) = ''9007199254740992.00''"
proof -
  have "float64_of_nat 9007199254740993 = 9007199254740992"
    by (simp add: float64_of_nat_def excess_bits.simps Let_def)
  then show ?thesis
    by (simp add: fixed2_def str_nat.simps digit_def)
qed

text \<open>
  C6 fails on the code for an integer column whose range does not fit 64 bits: the
  subtraction of the two \<open>np.int64\<close> scalars wraps around, and both front-ends display
  a negative range where the specification's range is \<open>9223372036854775808\<close>.
\<close>

theorem range_wraps_around:
  "show_statistics [(''x'', Int64 [9223372036854775807, - 1])] =
     ([Subheader ''Descriptive Statistics (Pandas)'',
       Dataframe_stats [(''x'', Numeric_summary 2 (Some 4611686018427387903) (Some (- 1))
                                  (Some 9223372036854775807))],
       Subheader ''Additional NumPy Analysis (Range)'',
       Table_ranges [(''x'', ''-9223372036854775808.00'')]], None)
   \<and> tk_ranges [(''x'', Int64 [9223372036854775807, - 1])] [''x''] =
       ([Text (''Range for **x**: -9223372036854775808.00'' @ [CHR 0x0A])], None)
   \<and> spec_range (Int64 [9223372036854775807, - 1]) = I64 9223372036854775808
   \<and> format_2f (I64 9223372036854775808) = ''9223372036854775808.00''"
proof -
  have f: "float64_of_nat 9223372036854775808 = 9223372036854775808"
    by (simp add: float64_of_nat_def excess_bits.simps Let_def)
  have s: "str_nat 9223372036854775808 = ''9223372036854775808''"
    by (simp add: str_nat.simps digit_def)
  have k1: "format_2f (I64 9223372036854775808) = ''9223372036854775808.00''"
    by (simp add: fixed2_def f s digit_def)
  have k2: "format_2f (I64 (- 9223372036854775808)) = ''-9223372036854775808.00''"
    by (simp add: fixed2_def f s digit_def)
  have w: "wrap64 9223372036854775808 = - 9223372036854775808"
    by (simp add: wrap64_def)
  show ?thesis
    by (simp add: show_statistics_def describe_def describe_numeric_def Let_def w k1 k2
          del: format_2f.simps)
qed

subsection \<open>Records of unequal length\<close>

lemma read_records_short:
  assumes "\<forall>r \<in> set data. length r \<le> length header"
  shows "read_records mangle infer (header # data) =
           Inr (zip (mangle header)
                  (map infer (map (\<lambda>i. map (\<lambda>r. pad (length header) r ! i) data)
                                [0..<length header])))"
proof -
  have w: "(case data of [] \<Rightarrow> length header
            | first # _ \<Rightarrow> max (length header) (length first)) = length header"
    using assms by (cases data) (auto simp: max_def)
  have "filter (\<lambda>(line, r). length header < length r) (enumerate 2 data) = []"
    using assms by (auto simp: filter_empty_conv enumerate_eq_zip dest!: set_zip_rightD)
  then show ?thesis
    unfolding read_records_def by (simp add: w Let_def comp_def)
qed

lemma read_records_long:
  assumes "r \<in> set rest" and "max (length header) (length first) < length r"
  shows "\<exists>e. read_records mangle infer (header # first # rest) = Inl e"
proof -
  let ?w = "max (length header) (length first)"
  obtain k where "k < length rest" and "rest ! k = r"
    using assms(1) by (auto simp: in_set_conv_nth)
  then have "(3 + k, r) \<in> set (enumerate 2 (first # rest))"
    by (simp add: in_set_enumerate_eq)
  then have "filter (\<lambda>(line, r). ?w < length r) (enumerate 2 (first # rest)) \<noteq> []"
    using assms(2) by (auto simp: filter_empty_conv)
  then obtain line r' xs where
    "filter (\<lambda>(line, r). ?w < length r) (enumerate 2 (first # rest)) = (line, r') # xs"
    by (cases "filter (\<lambda>(line, r). ?w < length r) (enumerate 2 (first # rest))") auto
  then show ?thesis
    unfolding read_records_def by (simp add: Let_def)
qed

text \<open>
  C7 (as amended). A record after the first data record that has more fields than both the
  header and the first data record makes the Loader report a load failure and leave no
  table. Records with fewer fields than the header do not: when no record has more fields
  than the header, the load succeeds, the short records are filled up with empty fields
  (read as missing values), and every column of the table is inferred from one cell per
  record.
\<close>

theorem ragged_records:
  "(tokenize content = Inr (header # data) \<and> (\<forall>r \<in> set data. length r \<le> length header)
      \<longrightarrow> (\<exists>cols. pd_read_csv tokenize mangle infer content
                      = Inr (zip (mangle header) (map infer cols))
               \<and> length cols = length header
               \<and> (\<forall>cells \<in> set cols. length cells = length data)
               \<and> (\<forall>i < length header. \<forall>k < length data.
                     cols ! i ! k = (if i < length (data ! k) then data ! k ! i else []))))
   \<and> (tokenize content = Inr (header # first # rest) \<and> r \<in> set rest
       \<and> max (length header) (length first) < length r
      \<longrightarrow> (\<exists>e. pd_read_csv tokenize mangle infer content = Inl e
               \<and> load_data (pd_read_csv tokenize mangle infer)
                    (Some \<lparr>name = n, getvalue = content\<rparr>) ss =
                   (ss\<lparr>df := None\<rparr>,
                    [Error (''Error loading file. Please check the format. Details: '' @ e)])))"
proof (intro conjI impI)
  assume a: "tokenize content = Inr (header # data) \<and> (\<forall>r \<in> set data. length r \<le> length header)"
  let ?cols = "map (\<lambda>i. map (\<lambda>r. pad (length header) r ! i) data) [0..<length header]"
  have "pd_read_csv tokenize mangle infer content = Inr (zip (mangle header) (map infer ?cols))"
    using a by (simp add: pd_read_csv_def read_records_short)
  moreover have "length ?cols = length header"
    by simp
  moreover have "\<forall>cells \<in> set ?cols. length cells = length data"
    by auto
  moreover have "\<forall>i < length header. \<forall>k < length data.
      ?cols ! i ! k = (if i < length (data ! k) then data ! k ! i else [])"
    using a by (auto simp: pad_def nth_append)
  ultimately show "\<exists>cols. pd_read_csv tokenize mangle infer content
                      = Inr (zip (mangle header) (map infer cols))
               \<and> length cols = length header
               \<and> (\<forall>cells \<in> set cols. length cells = length data)
               \<and> (\<forall>i < length header. \<forall>k < length data.
                     cols ! i ! k = (if i < length (data ! k) then data ! k ! i else []))"
    by blast
next
  assume b: "tokenize content = Inr (header # first # rest) \<and> r \<in> set rest
       \<and> max (length header) (length first) < length r"
  then obtain e where "read_records mangle infer (header # first # rest) = Inl e"
    using read_records_long by blast
  then have "pd_read_csv tokenize mangle infer content = Inl e"
    using b by (simp add: pd_read_csv_def)
  then show "\<exists>e. pd_read_csv tokenize mangle infer content = Inl e
               \<and> load_data (pd_read_csv tokenize mangle infer)
                    (Some \<lparr>name = n, getvalue = content\<rparr>) ss =
                   (ss\<lparr>df := None\<rparr>,
                    [Error (''Error loading file. Please check the format. Details: '' @ e)])"
    by (simp add: load_data_def)
qed


theorem ragged_records_witness:
  "(\<exists>cols. read_plain_csv (''a,b'' @ [CHR 0x0A] @ ''1,2'' @ [CHR 0x0A] @ ''3'')
             = Inr (zip [''a'', ''b''] (map infer_cells cols))
           \<and> length cols = 2)
   \<and> (\<exists>e. read_plain_csv (''a,b'' @ [CHR 0x0A] @ ''1,2'' @ [CHR 0x0A] @ ''3,4,5'') = Inl e)"
proof -
  have t1: "plain_records (''a,b'' @ [CHR 0x0A] @ ''1,2'' @ [CHR 0x0A] @ ''3'')
              = Inr ([''a'', ''b''] # [[''1'', ''2''], [''3'']])"
    by code_simp
  have s1: "\<forall>r \<in> set [[''1'', ''2''], [''3'']]. length r \<le> length [''a'', ''b'']"
    by simp
  have t2: "plain_records (''a,b'' @ [CHR 0x0A] @ ''1,2'' @ [CHR 0x0A] @ ''3,4,5'')
              = Inr ([''a'', ''b''] # [''1'', ''2''] # [[''3'', ''4'', ''5'']])"
    by code_simp
  have s2: "[''3'', ''4'', ''5''] \<in> set [[''3'', ''4'', ''5'']]"
    and s3: "max (length [''a'', ''b'']) (length [''1'', ''2'']) < length [''3'', ''4'', ''5'']"
    by simp_all
  have a: "\<exists>cols. pd_read_csv plain_records id infer_cells
                    (''a,b'' @ [CHR 0x0A] @ ''1,2'' @ [CHR 0x0A] @ ''3'')
                  = Inr (zip (id [''a'', ''b'']) (map infer_cells cols))
                \<and> length cols = length [''a'', ''b'']"
    using ragged_records
      [where tokenize = plain_records and mangle = id and infer = infer_cells
         and content = "''a,b'' @ [CHR 0x0A] @ ''1,2'' @ [CHR 0x0A] @ ''3''"
         and header = "[''a'', ''b'']" and data = "[[''1'', ''2''], [''3'']]",
       THEN conjunct1, rule_format, OF conjI, OF t1 s1]
    by blast
  have b: "\<exists>e. pd_read_csv plain_records id infer_cells
                 (''a,b'' @ [CHR 0x0A] @ ''1,2'' @ [CHR 0x0A] @ ''3,4,5'') = Inl e"
    using ragged_records
      [where tokenize = plain_records and mangle = id and infer = infer_cells
         and content = "''a,b'' @ [CHR 0x0A] @ ''1,2'' @ [CHR 0x0A] @ ''3,4,5''"
         and header = "[''a'', ''b'']" and first = "[''1'', ''2'']"
         and rest = "[[''3'', ''4'', ''5'']]" and r = "[''3'', ''4'', ''5'']"
         and ss = undefined and n = undefined,
       THEN conjunct2, rule_format, OF conjI, OF t2 conjI, OF s2 s3]
    by blast
  show ?thesis
    using a b unfolding read_plain_csv_def by (simp add: numeral_2_eq_2)
qed

text \<open>
  C7 as stated fails: a file whose last record has fewer fields than the header is
  loaded, with a missing value in the short record's place.
\<close>

theorem short_record_loaded_counterexample:
  "plain_records (''a,b'' @ [CHR 0x0A] @ ''1,2'' @ [CHR 0x0A] @ ''3'')
     = Inr [[''a'', ''b''], [''1'', ''2''], [''3'']]
   \<and> read_plain_csv (''a,b'' @ [CHR 0x0A] @ ''1,2'' @ [CHR 0x0A] @ ''3'')
     = Inr [(''a'', Int64 [1, 3]), (''b'', Float64 [Some 2, None])]
   \<and> df (fst (load_data read_plain_csv
         (Some \<lparr>name = ''data.csv'', getvalue = ''a,b'' @ [CHR 0x0A] @ ''1,2'' @ [CHR 0x0A] @ ''3''\<rparr>)
         \<lparr>df = None, last_uploaded_name = None,
          show_stats = False, show_plot = False, plot_col = None\<rparr>))
     = Some [(''a'', Int64 [1, 3]), (''b'', Float64 [Some 2, None])]"
  by code_simp

end
